theory Spec2Isabelle
  imports Main "HOL-Library.Code_Target_Nat"
begin

section \<open>Python primitives used by the lab builder\<close>

text \<open>
  The exceptions the modelled code can raise. \<open>ValidationError\<close> is pydantic's: it
  carries the messages of every validator that raised \<open>ValueError\<close> while one model
  was validated.
\<close>

datatype error =
    ValueError string
  | AttributeError string
  | ValidationError "string list"

text \<open>Lower-case hexadecimal and decimal rendering of a natural number.\<close>

definition digit_char :: "nat \<Rightarrow> char" where
  "digit_char d = ''0123456789abcdef'' ! d"

fun hex_nat :: "nat \<Rightarrow> string" where
  "hex_nat n = (if n < 16 then [digit_char n] else hex_nat (n div 16) @ [digit_char (n mod 16)])"

fun dec_nat :: "nat \<Rightarrow> string" where
  "dec_nat n = (if n < 10 then [digit_char n] else dec_nat (n div 10) @ [digit_char (n mod 10)])"

declare hex_nat.simps [simp del]
declare dec_nat.simps [simp del]

definition zfill :: "nat \<Rightarrow> string \<Rightarrow> string" where
  "zfill w s = replicate (w - length s) CHR ''0'' @ s"

text \<open>
  The format specification \<open>02x\<close> applied to a Python int: lower-case hexadecimal,
  zero-padded to a minimum width of two characters, the sign counting towards the
  width. Nothing is truncated: a value above 255 takes more than two characters.
\<close>

definition fmt_02x :: "int \<Rightarrow> string" where
  "fmt_02x i =
     (if i < 0 then CHR ''-'' # zfill 1 (hex_nat (nat (- i))) else zfill 2 (hex_nat (nat i)))"

text \<open>\<open>str(i)\<close> for a Python int.\<close>

definition str_int :: "int \<Rightarrow> string" where
  "str_int i = (if i < 0 then CHR ''-'' # dec_nat (nat (- i)) else dec_nat (nat i))"

text \<open>\<open>s.lower()\<close> on ASCII text and \<open>s.split(':')\<close>.\<close>

definition lower_char :: "char \<Rightarrow> char" where
  "lower_char c =
     (if (65::nat) \<le> of_char c \<and> (of_char c :: nat) \<le> 90
      then char_of ((of_char c :: nat) + 32) else c)"

definition lower :: "string \<Rightarrow> string" where
  "lower s = map lower_char s"

fun split_colon :: "string \<Rightarrow> string list" where
  "split_colon [] = [[]]"
| "split_colon (c # cs) =
     (if c = CHR '':'' then [] # split_colon cs
      else (case split_colon cs of [] \<Rightarrow> [[c]] | p # ps \<Rightarrow> (c # p) # ps))"

text \<open>
  A Python dict keeps its keys in insertion order; assigning to a key that is already
  present replaces the value and keeps the key's position.
\<close>

fun dict_set :: "('k \<times> 'v) list \<Rightarrow> 'k \<Rightarrow> 'v \<Rightarrow> ('k \<times> 'v) list" where
  "dict_set [] k v = [(k, v)]"
| "dict_set ((k', v') # d) k v = (if k' = k then (k, v) # d else (k', v') # dict_set d k v)"

definition dict_values :: "('k \<times> 'v) list \<Rightarrow> 'v list" where
  "dict_values d = map snd d"

section \<open>The standard library's IPv4 networks\<close>

text \<open>
  An address is its 32-bit value. A CIDR text \<open>a.b.c.d/len\<close> is modelled by the pair
  of the address value and the prefix length it denotes; a text that denotes no such
  pair within range is a pair out of range. \<open>IPv4Network\<close> is the strict constructor
  of the \<open>ipaddress\<close> module: it raises \<open>ValueError\<close> when the address or the prefix
  length is out of range or when host bits are set.
\<close>

type_synonym cidr = "nat \<times> nat"

record ipv4network =
  network_address :: nat
  prefixlen :: nat

definition IPv4Network :: "cidr \<Rightarrow> error + ipv4network" where
  "IPv4Network c =
     (case c of (a, l) \<Rightarrow>
        if 2 ^ 32 \<le> a \<or> 32 < l then Inl (ValueError ''not a valid IPv4 network'')
        else if a mod 2 ^ (32 - l) \<noteq> 0 then Inl (ValueError ''has host bits set'')
        else Inr \<lparr>network_address = a, prefixlen = l\<rparr>)"

definition broadcast_address :: "ipv4network \<Rightarrow> nat" where
  "broadcast_address n = network_address n + 2 ^ (32 - prefixlen n) - 1"

text \<open>\<open>list(network)\<close>: every address of the network, the first and the last included.\<close>

definition addresses :: "ipv4network \<Rightarrow> nat list" where
  "addresses n = [network_address n ..< Suc (broadcast_address n)]"

text \<open>
  \<open>list(network.hosts())\<close>. The library yields the addresses strictly between the
  network address and the broadcast address; for a prefix length of 31 it yields both
  addresses of the network, and for a prefix length of 32 the single address.
\<close>

definition hosts :: "ipv4network \<Rightarrow> nat list" where
  "hosts n =
     (if prefixlen n = 31 then addresses n
      else if prefixlen n = 32 then [network_address n]
      else [Suc (network_address n) ..< broadcast_address n])"

text \<open>\<open>str(address)\<close> is the dotted quad, \<open>str(network)\<close> adds the prefix length.\<close>

definition ip_str :: "nat \<Rightarrow> string" where
  "ip_str a =
     dec_nat (a div 2 ^ 24 mod 256) @ ''.'' @ dec_nat (a div 2 ^ 16 mod 256) @ ''.'' @
     dec_nat (a div 2 ^ 8 mod 256) @ ''.'' @ dec_nat (a mod 256)"

definition net_str :: "ipv4network \<Rightarrow> string" where
  "net_str n = ip_str (network_address n) @ ''/'' @ dec_nat (prefixlen n)"

definition cidr_str :: "cidr \<Rightarrow> string" where
  "cidr_str c = ip_str (fst c) @ ''/'' @ dec_nat (snd c)"

section \<open>schema.py: the configuration model\<close>

datatype AddressingMode = DYNAMIC | STATIC | UNKNOWN

datatype SwitchType = NORMAL | MGMT | P2P

text \<open>
  A key of the input that may be left out. pydantic does not run a field's validator
  when the key is left out and the field has a default.
\<close>

datatype 'a supplied = Omitted | Supplied 'a

record Port =
  p_name :: string
  p_addressing :: AddressingMode
  p_ip :: "string option"

record Switch =
  s_name :: string
  s_id :: int
  s_type :: SwitchType
  s_subnet :: cidr
  s_dhcp_enable :: bool
  s_routed :: bool
  s_port_count :: "int option"
  s_ports :: "Port list option"

record VPC =
  v_name :: string
  v_mac_prefix :: string
  v_id :: int
  v_port_count :: "int option"

record LabConfig =
  vpc :: VPC
  switches :: "Switch list"

text \<open>The raw input of the three models that have validators.\<close>

record raw_Port =
  rp_name :: string
  rp_addressing :: AddressingMode
  rp_ip :: "string option supplied"

record raw_Switch =
  rs_name :: string
  rs_id :: int
  rs_type :: SwitchType
  rs_subnet :: cidr
  rs_dhcp_enable :: bool
  rs_routed :: bool
  rs_port_count :: "int option"
  rs_ports :: "raw_Port list option"

record raw_LabConfig =
  r_vpc :: VPC
  r_switches :: "raw_Switch list"

text \<open>Truth value of an optional string: \<open>None\<close> and the empty string are false.\<close>

definition truthy :: "string option \<Rightarrow> bool" where
  "truthy v = (case v of None \<Rightarrow> False | Some s \<Rightarrow> s \<noteq> [])"

definition validate_ip_if_static :: "AddressingMode \<Rightarrow> string option \<Rightarrow> string + string option" where
  "validate_ip_if_static addressing v =
     (if addressing = STATIC \<and> \<not> truthy v
      then Inl ''IP address must be provided when addressing mode is static''
      else Inr v)"

definition Port_validate :: "raw_Port \<Rightarrow> string list + Port" where
  "Port_validate r =
     (case rp_ip r of
        Omitted \<Rightarrow> Inr \<lparr>p_name = rp_name r, p_addressing = rp_addressing r, p_ip = None\<rparr>
      | Supplied v \<Rightarrow>
          (case validate_ip_if_static (rp_addressing r) v of
             Inl m \<Rightarrow> Inl [m]
           | Inr v' \<Rightarrow> Inr \<lparr>p_name = rp_name r, p_addressing = rp_addressing r, p_ip = v'\<rparr>))"

fun Port_list_validate :: "raw_Port list \<Rightarrow> string list + Port list" where
  "Port_list_validate [] = Inr []"
| "Port_list_validate (r # rs) =
     (case (Port_validate r, Port_list_validate rs) of
        (Inr p, Inr ps) \<Rightarrow> Inr (p # ps)
      | (Inl e, Inr ps) \<Rightarrow> Inl e
      | (Inr p, Inl es) \<Rightarrow> Inl es
      | (Inl e, Inl es) \<Rightarrow> Inl (e @ es))"

definition validate_subnet :: "cidr \<Rightarrow> string + cidr" where
  "validate_subnet v = (case IPv4Network v of Inl e \<Rightarrow> Inl ''Invalid subnet'' | Inr n \<Rightarrow> Inr v)"

text \<open>
  The root validator of \<open>Switch\<close> receives the validated values of the declared fields
  only. \<open>vpc_port_count\<close> is not a field of \<open>Switch\<close>, so \<open>values.get('vpc_port_count')\<close>
  is \<open>None\<close> whatever the input holds; the parameter \<open>vpc_port_count\<close> below is that
  lookup, and \<open>Switch_validate\<close> passes \<open>None\<close>.
\<close>

definition validate_ports_or_count ::
  "Port list option \<Rightarrow> int option \<Rightarrow> int option \<Rightarrow> string + unit" where
  "validate_ports_or_count ports_v port_count_v vpc_port_count =
     (if ports_v \<noteq> None \<and> port_count_v \<noteq> None
      then Inl ''Cannot specify both ports and port_count''
      else if ports_v = None \<and> port_count_v = None \<and> vpc_port_count = None
      then Inl ''Must specify either ports or port_count''
      else Inr ())"

definition sum_errors :: "string + 'a \<Rightarrow> string list" where
  "sum_errors r = (case r of Inl m \<Rightarrow> [m] | Inr _ \<Rightarrow> [])"

definition Switch_validate :: "raw_Switch \<Rightarrow> string list + Switch" where
  "Switch_validate r =
     (let subnet_errs = sum_errors (validate_subnet (rs_subnet r));
          ports_r = (case rs_ports r of None \<Rightarrow> Inr None
                     | Some ps \<Rightarrow> (case Port_list_validate ps of Inl es \<Rightarrow> Inl es | Inr ps' \<Rightarrow> Inr (Some ps')));
          ports_errs = (case ports_r of Inl es \<Rightarrow> es | Inr _ \<Rightarrow> []);
          ports_v = (case ports_r of Inl _ \<Rightarrow> None | Inr v \<Rightarrow> v);
          root_errs = sum_errors (validate_ports_or_count ports_v (rs_port_count r) None);
          errs = subnet_errs @ ports_errs @ root_errs
      in if errs \<noteq> [] then Inl errs
         else Inr \<lparr>s_name = rs_name r, s_id = rs_id r, s_type = rs_type r, s_subnet = rs_subnet r,
                   s_dhcp_enable = rs_dhcp_enable r, s_routed = rs_routed r,
                   s_port_count = rs_port_count r, s_ports = ports_v\<rparr>)"

definition validate_mac_prefix :: "string \<Rightarrow> string + string" where
  "validate_mac_prefix v =
     (if \<not> (\<forall>c \<in> set (lower v). c \<in> set ''0123456789abcdef:'') then Inl ''Invalid MAC prefix''
      else if length (split_colon v) \<noteq> 3 then Inl ''MAC prefix must have 3 octets''
      else if \<not> (\<forall>part \<in> set (split_colon v). length part = 2)
      then Inl ''Each octet must be 2 hex digits''
      else Inr (lower v))"

definition VPC_validate :: "VPC \<Rightarrow> string list + VPC" where
  "VPC_validate r =
     (case validate_mac_prefix (v_mac_prefix r) of
        Inl m \<Rightarrow> Inl [m]
      | Inr p \<Rightarrow> Inr (r\<lparr>v_mac_prefix := p\<rparr>))"

fun Switch_list_validate :: "raw_Switch list \<Rightarrow> string list + Switch list" where
  "Switch_list_validate [] = Inr []"
| "Switch_list_validate (r # rs) =
     (case (Switch_validate r, Switch_list_validate rs) of
        (Inr s, Inr ss) \<Rightarrow> Inr (s # ss)
      | (Inl e, Inr ss) \<Rightarrow> Inl e
      | (Inr s, Inl es) \<Rightarrow> Inl es
      | (Inl e, Inl es) \<Rightarrow> Inl (e @ es))"

definition validate_switch_ids :: "Switch list \<Rightarrow> string + Switch list" where
  "validate_switch_ids v =
     (let ids = map s_id v
      in if length ids \<noteq> length (remdups ids) then Inl ''Switch IDs must be unique'' else Inr v)"

text \<open>
  \<open>inject_vpc_port_count\<close> assigns the attribute \<open>vpc_port_count\<close> on every switch when
  the VPC has a port count. A pydantic model refuses the assignment of an attribute
  that is not one of its fields with \<open>ValueError\<close>, which the validation of \<open>LabConfig\<close>
  collects like any other validator failure.
\<close>

definition Switch_fields :: "string list" where
  "Switch_fields =
     [''name'', ''id'', ''type'', ''subnet'', ''dhcp_enable'', ''routed'', ''port_count'', ''ports'']"

definition Switch_setattr :: "string \<Rightarrow> string + unit" where
  "Switch_setattr attr =
     (if attr \<in> set Switch_fields then Inr () else Inl ''Switch object has no field vpc_port_count'')"

definition inject_vpc_port_count :: "VPC option \<Rightarrow> Switch list option \<Rightarrow> string + unit" where
  "inject_vpc_port_count vpc_v switches_v =
     (case (vpc_v, switches_v) of
        (Some v, Some (s # ss)) \<Rightarrow>
          (if v_port_count v \<noteq> None then Switch_setattr ''vpc_port_count'' else Inr ())
      | _ \<Rightarrow> Inr ())"

definition LabConfig_validate :: "raw_LabConfig \<Rightarrow> error + LabConfig" where
  "LabConfig_validate r =
     (let vpc_r = VPC_validate (r_vpc r);
          vpc_errs = (case vpc_r of Inl es \<Rightarrow> es | Inr _ \<Rightarrow> []);
          vpc_v = (case vpc_r of Inl _ \<Rightarrow> None | Inr v \<Rightarrow> Some v);
          sw_r = (case Switch_list_validate (r_switches r) of
                    Inl es \<Rightarrow> Inl es
                  | Inr ss \<Rightarrow> (case validate_switch_ids ss of Inl m \<Rightarrow> Inl [m] | Inr ss' \<Rightarrow> Inr ss'));
          sw_errs = (case sw_r of Inl es \<Rightarrow> es | Inr _ \<Rightarrow> []);
          sw_v = (case sw_r of Inl _ \<Rightarrow> None | Inr v \<Rightarrow> Some v);
          root_errs = sum_errors (inject_vpc_port_count vpc_v sw_v);
          errs = vpc_errs @ sw_errs @ root_errs
      in case (vpc_v, sw_v) of
           (Some v, Some ss) \<Rightarrow>
             if errs \<noteq> [] then Inl (ValidationError errs) else Inr \<lparr>vpc = v, switches = ss\<rparr>
         | _ \<Rightarrow> Inl (ValidationError errs))"

section \<open>topology.py: the derived topology\<close>

record LogicalSwitchPort =
  lsp_vpc_name :: string
  lsp_switch_name :: string
  lsp_port_name :: string
  lsp_vpc_id :: int
  lsp_switch_id :: int
  port_index :: int
  lsp_mac_prefix :: string
  lsp_addressing :: AddressingMode
  lsp_ip :: "string option"
  lsp_subnet :: "ipv4network option"

definition lsp_full_name :: "LogicalSwitchPort \<Rightarrow> string" where
  "lsp_full_name p = lsp_vpc_name p @ ''-'' @ lsp_switch_name p @ ''-'' @ lsp_port_name p"

definition mac :: "LogicalSwitchPort \<Rightarrow> string" where
  "mac p =
     lsp_mac_prefix p @ '':'' @ fmt_02x (lsp_vpc_id p) @ '':'' @ fmt_02x (lsp_switch_id p) @
     '':'' @ fmt_02x (port_index p)"

definition port_security :: "LogicalSwitchPort \<Rightarrow> string list" where
  "port_security p =
     (if lsp_addressing p = STATIC \<and> truthy (lsp_ip p) then [mac p @ '' '' @ the (lsp_ip p)]
      else [mac p])"

text \<open>
  A logical switch. \<open>__init__\<close> assigns the first ten attributes. The properties
  \<open>dhcp_server_mac\<close> and \<open>router_port_mac\<close> read two more, \<open>vpc_mac_prefix\<close> and \<open>vpc_id\<close>,
  which \<open>__init__\<close> does not assign: on a Python object such an attribute is absent, and
  reading it raises \<open>AttributeError\<close>, until some caller assigns it. The two optional
  fields are these attributes, \<open>None\<close> standing for absent.
\<close>

record LogicalSwitch =
  ls_vpc_name :: string
  ls_name :: string
  ls_id :: int
  ls_type :: SwitchType
  subnet_str :: cidr
  subnet :: ipv4network
  dhcp_enable :: bool
  routed :: bool
  ports :: "LogicalSwitchPort list"
  dhcp_options :: "(string \<times> string) list option"
  vpc_mac_prefix :: "string option"
  vpc_id :: "int option"

definition LogicalSwitch_init ::
  "string \<Rightarrow> string \<Rightarrow> int \<Rightarrow> SwitchType \<Rightarrow> cidr \<Rightarrow> bool \<Rightarrow> bool \<Rightarrow> error + LogicalSwitch" where
  "LogicalSwitch_init vpc_name name switch_id switch_type subnet_v dhcp routed_v =
     (case IPv4Network subnet_v of
        Inl e \<Rightarrow> Inl e
      | Inr n \<Rightarrow>
          Inr \<lparr>ls_vpc_name = vpc_name, ls_name = name, ls_id = switch_id, ls_type = switch_type,
               subnet_str = subnet_v, subnet = n, dhcp_enable = dhcp, routed = routed_v,
               ports = [], dhcp_options = None, vpc_mac_prefix = None, vpc_id = None\<rparr>)"

definition ls_full_name :: "LogicalSwitch \<Rightarrow> string" where
  "ls_full_name sw = ls_vpc_name sw @ ''-'' @ ls_name sw"

definition router_port_ip :: "LogicalSwitch \<Rightarrow> string option" where
  "router_port_ip sw =
     (if \<not> routed sw then None
      else (case hosts (subnet sw) of
              [] \<Rightarrow> (if prefixlen (subnet sw) = 31 then Some (ip_str (network_address (subnet sw)))
                     else None)
            | h # _ \<Rightarrow> Some (ip_str h @ ''/'' @ dec_nat (prefixlen (subnet sw)))))"

definition dhcp_server_mac :: "LogicalSwitch \<Rightarrow> error + string" where
  "dhcp_server_mac sw =
     (case vpc_mac_prefix sw of
        None \<Rightarrow> Inl (AttributeError ''vpc_mac_prefix'')
      | Some prefix \<Rightarrow>
          (case vpc_id sw of
             None \<Rightarrow> Inl (AttributeError ''vpc_id'')
           | Some v \<Rightarrow> Inr (prefix @ '':'' @ fmt_02x v @ '':'' @ fmt_02x (ls_id sw) @ '':00'')))"

definition router_port_mac :: "LogicalSwitch \<Rightarrow> error + string option" where
  "router_port_mac sw =
     (if \<not> routed sw \<or> \<not> dhcp_enable sw then Inr None
      else (case dhcp_server_mac sw of Inl e \<Rightarrow> Inl e | Inr m \<Rightarrow> Inr (Some m)))"

definition usable_ips :: "LogicalSwitch \<Rightarrow> nat list" where
  "usable_ips sw =
     (if prefixlen (subnet sw) = 31 then addresses (subnet sw)
      else (let hs = hosts (subnet sw)
            in if dhcp_enable sw \<and> 4 < length hs then drop 4 hs else hs))"

definition add_port :: "LogicalSwitch \<Rightarrow> LogicalSwitchPort \<Rightarrow> LogicalSwitch" where
  "add_port sw p = sw\<lparr>ports := ports sw @ [p]\<rparr>"

record LogicalRouter =
  lr_vpc_name :: string
  switch_ports :: "(string \<times> (string \<times> string)) list"

definition LogicalRouter_init :: "string \<Rightarrow> LogicalRouter" where
  "LogicalRouter_init vpc_name = \<lparr>lr_vpc_name = vpc_name, switch_ports = []\<rparr>"

definition lr_full_name :: "LogicalRouter \<Rightarrow> string" where
  "lr_full_name r = lr_vpc_name r @ ''-lr''"

definition add_switch :: "LogicalRouter \<Rightarrow> LogicalSwitch \<Rightarrow> error + LogicalRouter" where
  "add_switch r sw =
     (if \<not> routed sw then Inr r
      else (let router_ip = router_port_ip sw
            in case router_port_mac sw of
                 Inl e \<Rightarrow> Inl e
               | Inr router_mac \<Rightarrow>
                   if truthy router_ip \<and> truthy router_mac
                   then Inr (r\<lparr>switch_ports :=
                                 dict_set (switch_ports r) (ls_name sw) (the router_ip, the router_mac)\<rparr>)
                   else Inr r))"

text \<open>\<open>a or b\<close> on optional ints: \<open>None\<close> and 0 are false.\<close>

definition py_or :: "int option \<Rightarrow> int option \<Rightarrow> int option" where
  "py_or a b = (case a of None \<Rightarrow> b | Some n \<Rightarrow> if n = 0 then b else Some n)"

text \<open>The two port constructions of \<open>_add_ports_to_switch\<close>; \<open>idx\<close> is the loop index.\<close>

definition explicit_port :: "LabConfig \<Rightarrow> LogicalSwitch \<Rightarrow> nat \<times> Port \<Rightarrow> LogicalSwitchPort" where
  "explicit_port config sw ip =
     (case ip of (idx, port_config) \<Rightarrow>
        \<lparr>lsp_vpc_name = v_name (vpc config), lsp_switch_name = ls_name sw,
         lsp_port_name = p_name port_config, lsp_vpc_id = v_id (vpc config),
         lsp_switch_id = ls_id sw, port_index = int idx + 1,
         lsp_mac_prefix = v_mac_prefix (vpc config), lsp_addressing = p_addressing port_config,
         lsp_ip = p_ip port_config, lsp_subnet = Some (subnet sw)\<rparr>)"

definition auto_port :: "LabConfig \<Rightarrow> LogicalSwitch \<Rightarrow> nat \<Rightarrow> LogicalSwitchPort" where
  "auto_port config sw idx =
     \<lparr>lsp_vpc_name = v_name (vpc config), lsp_switch_name = ls_name sw,
      lsp_port_name = ''lsp'' @ str_int (int idx + 1), lsp_vpc_id = v_id (vpc config),
      lsp_switch_id = ls_id sw, port_index = int idx + 1,
      lsp_mac_prefix = v_mac_prefix (vpc config),
      lsp_addressing = (if dhcp_enable sw then DYNAMIC else UNKNOWN),
      lsp_ip = None, lsp_subnet = Some (subnet sw)\<rparr>"

text \<open>\<open>range(n)\<close> for a Python int: empty when \<open>n\<close> is not positive.\<close>

definition py_range :: "int \<Rightarrow> nat list" where
  "py_range n = [0 ..< nat n]"

definition explicit_ports_given :: "Switch \<Rightarrow> bool" where
  "explicit_ports_given switch_config =
     (case s_ports switch_config of None \<Rightarrow> False | Some ps \<Rightarrow> ps \<noteq> [])"

definition add_ports_to_switch :: "LabConfig \<Rightarrow> LogicalSwitch \<Rightarrow> Switch \<Rightarrow> LogicalSwitch" where
  "add_ports_to_switch config sw switch_config =
     (if explicit_ports_given switch_config
      then foldl add_port sw (map (explicit_port config sw) (enumerate 0 (the (s_ports switch_config))))
      else (case py_or (s_port_count switch_config) (v_port_count (vpc config)) of
              None \<Rightarrow> sw
            | Some port_count \<Rightarrow>
                (let actual_port_count = min port_count (int (length (usable_ips sw)))
                 in foldl add_port sw (map (auto_port config sw) (py_range actual_port_count)))))"

definition setup_dhcp_options :: "LogicalSwitch \<Rightarrow> error + LogicalSwitch" where
  "setup_dhcp_options sw =
     (if \<not> dhcp_enable sw then Inr sw
      else (case hosts (subnet sw) of
              [] \<Rightarrow> Inr sw
            | h # _ \<Rightarrow>
                (case dhcp_server_mac sw of
                   Inl e \<Rightarrow> Inl e
                 | Inr m \<Rightarrow>
                     Inr (sw\<lparr>dhcp_options := Some
                            [(''server_id'', ip_str h), (''server_mac'', m), (''router'', ip_str h),
                             (''dns_server'', ''8.8.8.8''), (''lease_time'', ''3600'')]\<rparr>))))"

record Topology =
  t_config :: LabConfig
  t_vpc_name :: string
  t_mac_prefix :: string
  t_vpc_id :: int
  t_switches :: "(string \<times> LogicalSwitch) list"
  router :: "LogicalRouter option"

text \<open>The body of the first loop of \<open>_build_topology\<close>, up to the dict assignment.\<close>

definition make_switch :: "LabConfig \<Rightarrow> Switch \<Rightarrow> error + LogicalSwitch" where
  "make_switch config switch_config =
     (case LogicalSwitch_init (v_name (vpc config)) (s_name switch_config) (s_id switch_config)
             (s_type switch_config) (s_subnet switch_config) (s_dhcp_enable switch_config)
             (s_routed switch_config) of
        Inl e \<Rightarrow> Inl e
      | Inr sw0 \<Rightarrow>
          (let sw = add_ports_to_switch config sw0 switch_config
           in if dhcp_enable sw then setup_dhcp_options sw else Inr sw))"

fun create_switches ::
  "LabConfig \<Rightarrow> Switch list \<Rightarrow> (string \<times> LogicalSwitch) list \<Rightarrow> error + (string \<times> LogicalSwitch) list" where
  "create_switches config [] d = Inr d"
| "create_switches config (sc # scs) d =
     (case make_switch config sc of
        Inl e \<Rightarrow> Inl e
      | Inr sw \<Rightarrow> create_switches config scs (dict_set d (ls_name sw) sw))"

fun add_switches :: "LogicalRouter \<Rightarrow> LogicalSwitch list \<Rightarrow> error + LogicalRouter" where
  "add_switches r [] = Inr r"
| "add_switches r (sw # sws) =
     (if routed sw then (case add_switch r sw of Inl e \<Rightarrow> Inl e | Inr r' \<Rightarrow> add_switches r' sws)
      else add_switches r sws)"

definition create_router :: "string \<Rightarrow> LogicalSwitch list \<Rightarrow> error + LogicalRouter option" where
  "create_router vpc_name sws =
     (if \<exists>s \<in> set sws. routed s
      then (case add_switches (LogicalRouter_init vpc_name) sws of
              Inl e \<Rightarrow> Inl e
            | Inr r \<Rightarrow> Inr (Some r))
      else Inr None)"

definition Topology_init :: "LabConfig \<Rightarrow> error + Topology" where
  "Topology_init config =
     (case create_switches config (switches config) [] of
        Inl e \<Rightarrow> Inl e
      | Inr d \<Rightarrow>
          (case create_router (v_name (vpc config)) (dict_values d) of
             Inl e \<Rightarrow> Inl e
           | Inr r \<Rightarrow>
               Inr \<lparr>t_config = config, t_vpc_name = v_name (vpc config),
                    t_mac_prefix = v_mac_prefix (vpc config), t_vpc_id = v_id (vpc config),
                    t_switches = d, router = r\<rparr>))"

section \<open>The control plane seen by the builder\<close>

text \<open>
  The northbound database is an external collaborator. The model keeps what the
  builder's queries observe: the names of the routers, switches, switch ports and router
  ports, and the DHCP option rows with their identifier and CIDR. An added object exists
  until it is deleted; names are kept in a list, so an object added twice is there twice.
  \<open>db_log\<close> records every committed transaction with its operations, in order.
\<close>

datatype nb_op =
    Lr_add string
  | Ls_add string string string
  | Dhcp_options_add string "(string \<times> string) list"
  | Ls_set_dhcpv4_options string
  | Ls_set_other_config string string
  | Lsp_add string string
  | Lsp_set_addresses string "string list"
  | Lsp_set_port_security string "string list"
  | Lsp_set_type string string
  | Lsp_set_options string string
  | Lrp_add string string string "string list"
  | Lr_del string
  | Ls_del string
  | Dhcp_options_del nat
  | Lsp_del string
  | Lrp_del string

record nb_db =
  db_routers :: "string list"
  db_switches :: "string list"
  db_lsps :: "string list"
  db_lrps :: "string list"
  db_dhcp :: "(nat \<times> string) list"
  db_next_uuid :: nat
  db_log :: "nb_op list list"

definition empty_db :: nb_db where
  "empty_db = \<lparr>db_routers = [], db_switches = [], db_lsps = [], db_lrps = [], db_dhcp = [],
               db_next_uuid = 0, db_log = []\<rparr>"

fun apply_op :: "nb_db \<Rightarrow> nb_op \<Rightarrow> nb_db" where
  "apply_op db (Lr_add n) = db\<lparr>db_routers := db_routers db @ [n]\<rparr>"
| "apply_op db (Ls_add n ty sn) = db\<lparr>db_switches := db_switches db @ [n]\<rparr>"
| "apply_op db (Dhcp_options_add c opts) =
     db\<lparr>db_dhcp := db_dhcp db @ [(db_next_uuid db, c)], db_next_uuid := Suc (db_next_uuid db)\<rparr>"
| "apply_op db (Lsp_add sw n) = db\<lparr>db_lsps := db_lsps db @ [n]\<rparr>"
| "apply_op db (Lrp_add r n m ips) = db\<lparr>db_lrps := db_lrps db @ [n]\<rparr>"
| "apply_op db (Lr_del n) = db\<lparr>db_routers := removeAll n (db_routers db)\<rparr>"
| "apply_op db (Ls_del n) = db\<lparr>db_switches := removeAll n (db_switches db)\<rparr>"
| "apply_op db (Dhcp_options_del u) = db\<lparr>db_dhcp := filter (\<lambda>row. fst row \<noteq> u) (db_dhcp db)\<rparr>"
| "apply_op db (Lsp_del n) = db\<lparr>db_lsps := removeAll n (db_lsps db)\<rparr>"
| "apply_op db (Lrp_del n) = db\<lparr>db_lrps := removeAll n (db_lrps db)\<rparr>"
| "apply_op db _ = db"

text \<open>\<open>txn.commit()\<close> applies the operations added to the transaction, in order.\<close>

definition commit :: "nb_db \<Rightarrow> nb_op list \<Rightarrow> nb_db" where
  "commit db ops = (foldl apply_op db ops)\<lparr>db_log := db_log db @ [ops]\<rparr>"

definition lr_get :: "nb_db \<Rightarrow> string \<Rightarrow> bool" where
  "lr_get db n = (n \<in> set (db_routers db))"

definition ls_get :: "nb_db \<Rightarrow> string \<Rightarrow> bool" where
  "ls_get db n = (n \<in> set (db_switches db))"

definition lsp_get :: "nb_db \<Rightarrow> string \<Rightarrow> bool" where
  "lsp_get db n = (n \<in> set (db_lsps db))"

definition lrp_get :: "nb_db \<Rightarrow> string \<Rightarrow> bool" where
  "lrp_get db n = (n \<in> set (db_lrps db))"


definition is_delete :: "nb_op \<Rightarrow> bool" where
  "is_delete op =
     (case op of Lr_del _ \<Rightarrow> True | Ls_del _ \<Rightarrow> True | Dhcp_options_del _ \<Rightarrow> True
      | Lsp_del _ \<Rightarrow> True | Lrp_del _ \<Rightarrow> True | _ \<Rightarrow> False)"


section \<open>ovn\_builder.py: build and destroy\<close>

definition type_value :: "SwitchType \<Rightarrow> string" where
  "type_value t = (case t of NORMAL \<Rightarrow> ''normal'' | MGMT \<Rightarrow> ''mgmt'' | P2P \<Rightarrow> ''p2p'')"

fun join_comma :: "string list \<Rightarrow> string" where
  "join_comma [] = []"
| "join_comma [s] = s"
| "join_comma (s # t # ss) = s @ '','' @ join_comma (t # ss)"

definition create_logical_router :: "LogicalRouter \<Rightarrow> nb_db \<Rightarrow> nb_db" where
  "create_logical_router r db =
     (let name = lr_full_name r
      in if lr_get db name then db else commit db [Lr_add name])"

definition create_logical_switch :: "LogicalSwitch \<Rightarrow> nb_db \<Rightarrow> nb_db" where
  "create_logical_switch sw db =
     (let name = ls_full_name sw
      in if ls_get db name then db
         else commit db [Ls_add name (type_value (ls_type sw)) (cidr_str (subnet_str sw))])"

definition dhcp_options_given :: "LogicalSwitch \<Rightarrow> bool" where
  "dhcp_options_given sw = (case dhcp_options sw of None \<Rightarrow> False | Some opts \<Rightarrow> opts \<noteq> [])"

definition create_dhcp_options :: "LogicalSwitch \<Rightarrow> nb_db \<Rightarrow> nb_db" where
  "create_dhcp_options sw db =
     (if \<not> dhcp_options_given sw then db
      else commit db
             ([Dhcp_options_add (net_str (subnet sw)) (the (dhcp_options sw)),
               Ls_set_dhcpv4_options (ls_full_name sw)] @
              (if prefixlen (subnet sw) < 31 \<and> 4 \<le> length (hosts (subnet sw))
               then [Ls_set_other_config (ls_full_name sw)
                       (join_comma (map ip_str (take 4 (hosts (subnet sw)))))]
               else [])))"

definition port_addresses :: "LogicalSwitchPort \<Rightarrow> string list" where
  "port_addresses p =
     (if lsp_addressing p = DYNAMIC then [mac p @ '' dynamic'']
      else if lsp_addressing p = STATIC \<and> truthy (lsp_ip p) then [mac p @ '' '' @ the (lsp_ip p)]
      else [''unknown''])"

definition create_logical_switch_port :: "LogicalSwitch \<Rightarrow> LogicalSwitchPort \<Rightarrow> nb_db \<Rightarrow> nb_db" where
  "create_logical_switch_port sw p db =
     (let name = lsp_full_name p
      in if lsp_get db name then db
         else commit db [Lsp_add (ls_full_name sw) name, Lsp_set_addresses name (port_addresses p),
                         Lsp_set_port_security name (port_security p)])"

definition router_port_name :: "LogicalRouter \<Rightarrow> LogicalSwitch \<Rightarrow> string" where
  "router_port_name r sw = lr_full_name r @ ''-'' @ ls_name sw"

definition switch_port_name :: "LogicalRouter \<Rightarrow> LogicalSwitch \<Rightarrow> string" where
  "switch_port_name r sw = ls_full_name sw @ ''-'' @ lr_full_name r"

definition connect_switch_to_router :: "LogicalSwitch \<Rightarrow> LogicalRouter \<Rightarrow> nb_db \<Rightarrow> error + nb_db" where
  "connect_switch_to_router sw r db =
     (let router_ip = router_port_ip sw
      in case router_port_mac sw of
           Inl e \<Rightarrow> Inl e
         | Inr router_mac \<Rightarrow>
             if \<not> truthy router_ip \<or> \<not> truthy router_mac then Inr db
             else (let existing_router_port = lrp_get db (router_port_name r sw);
                       existing_switch_port = lsp_get db (switch_port_name r sw)
                   in if existing_router_port \<and> existing_switch_port then Inr db
                      else Inr (commit db
                             ((if \<not> existing_router_port
                               then [Lrp_add (lr_full_name r) (router_port_name r sw) (the router_mac)
                                       [the router_ip]]
                               else []) @
                              (if \<not> existing_switch_port
                               then [Lsp_add (ls_full_name sw) (switch_port_name r sw),
                                     Lsp_set_type (switch_port_name r sw) ''router'',
                                     Lsp_set_options (switch_port_name r sw) (router_port_name r sw),
                                     Lsp_set_addresses (switch_port_name r sw) [''router'']]
                               else [])))))"

text \<open>The body of the loop of \<open>build\<close> for one switch.\<close>

definition build_switch :: "LogicalRouter option \<Rightarrow> LogicalSwitch \<Rightarrow> nb_db \<Rightarrow> error + nb_db" where
  "build_switch ro sw db =
     (let db1 = create_logical_switch sw db;
          db2 = (if dhcp_enable sw \<and> dhcp_options_given sw then create_dhcp_options sw db1 else db1);
          db3 = foldl (\<lambda>d p. create_logical_switch_port sw p d) db2 (ports sw)
      in case ro of
           None \<Rightarrow> Inr db3
         | Some r \<Rightarrow> if routed sw then connect_switch_to_router sw r db3 else Inr db3)"

fun build_switches :: "LogicalRouter option \<Rightarrow> LogicalSwitch list \<Rightarrow> nb_db \<Rightarrow> error + nb_db" where
  "build_switches ro [] db = Inr db"
| "build_switches ro (sw # sws) db =
     (case build_switch ro sw db of Inl e \<Rightarrow> Inl e | Inr db' \<Rightarrow> build_switches ro sws db')"

definition build :: "Topology \<Rightarrow> nb_db \<Rightarrow> error + nb_db" where
  "build topology db =
     (let db1 = (case router topology of None \<Rightarrow> db | Some r \<Rightarrow> create_logical_router r db)
      in build_switches (router topology) (dict_values (t_switches topology)) db1)"










section \<open>Concrete inputs\<close>

text \<open>
  The configurations and topologies of the repository's tests and of the specification's
  end-to-end scenario, on which the model is run below. \<open>ipv4 a b c d\<close> is the value
  of the dotted quad \<open>a.b.c.d\<close>.
\<close>

definition ipv4 :: "nat \<Rightarrow> nat \<Rightarrow> nat \<Rightarrow> nat \<Rightarrow> nat" where
  "ipv4 a b c d = a * 2 ^ 24 + b * 2 ^ 16 + c * 2 ^ 8 + d"

text \<open>
  The configuration of \<open>test_topology_build\<close>: the VPC has a port count of 2, switch
  \<open>ls1\<close> has its own port count and switch \<open>ls2\<close> gives neither ports nor a count.
\<close>

definition test_vpc :: VPC where
  "test_vpc = \<lparr>v_name = ''vlab'', v_mac_prefix = ''e1:cc:ff'', v_id = 1, v_port_count = Some 2\<rparr>"

definition raw_ls1 :: raw_Switch where
  "raw_ls1 = \<lparr>rs_name = ''ls1'', rs_id = 1, rs_type = NORMAL, rs_subnet = (ipv4 192 168 1 0, 24),
     rs_dhcp_enable = True, rs_routed = True, rs_port_count = Some 2, rs_ports = None\<rparr>"

definition raw_ls2 :: raw_Switch where
  "raw_ls2 = \<lparr>rs_name = ''ls2'', rs_id = 2, rs_type = P2P, rs_subnet = (ipv4 192 168 2 0, 31),
     rs_dhcp_enable = False, rs_routed = False, rs_port_count = None, rs_ports = None\<rparr>"

definition test_topology_build_input :: raw_LabConfig where
  "test_topology_build_input = \<lparr>r_vpc = test_vpc, r_switches = [raw_ls1, raw_ls2]\<rparr>"

text \<open>
  The end-to-end scenario of the specification, as raw input and as validated
  configuration: one switch \<open>ls1\<close> on 192.168.1.0/24, DHCP enabled, routed, one port.
\<close>

definition e2e_raw :: raw_LabConfig where
  "e2e_raw =
     \<lparr>r_vpc = \<lparr>v_name = ''vlab'', v_mac_prefix = ''e1:cc:ff'', v_id = 1, v_port_count = None\<rparr>,
      r_switches =
        [\<lparr>rs_name = ''ls1'', rs_id = 1, rs_type = NORMAL, rs_subnet = (ipv4 192 168 1 0, 24),
          rs_dhcp_enable = True, rs_routed = True, rs_port_count = Some 1, rs_ports = None\<rparr>]\<rparr>"

definition e2e_config :: LabConfig where
  "e2e_config =
     \<lparr>vpc = \<lparr>v_name = ''vlab'', v_mac_prefix = ''e1:cc:ff'', v_id = 1, v_port_count = None\<rparr>,
      switches =
        [\<lparr>s_name = ''ls1'', s_id = 1, s_type = NORMAL, s_subnet = (ipv4 192 168 1 0, 24),
          s_dhcp_enable = True, s_routed = True, s_port_count = Some 1, s_ports = None\<rparr>]\<rparr>"








text \<open>
  Switches as \<open>LogicalSwitch.__init__\<close> makes them: a /31 with a port count of 5
  (\<open>test_topology_port_limit\<close>), a DHCP-enabled /30, a /24 with a port count of 3
  and a /23 with a port count of 300 (with its configuration, raw and validated). The
  routed /31 and the routed /32 have DHCP enabled and the attributes \<open>vpc_mac_prefix\<close>
  and \<open>vpc_id\<close> assigned, so that their gateway MAC resolves.
\<close>

definition p2p_config :: LabConfig where
  "p2p_config =
     \<lparr>vpc = \<lparr>v_name = ''vlab'', v_mac_prefix = ''e1:cc:ff'', v_id = 1, v_port_count = None\<rparr>,
      switches =
        [\<lparr>s_name = ''ls1'', s_id = 1, s_type = P2P, s_subnet = (ipv4 192 168 1 0, 31),
          s_dhcp_enable = False, s_routed = False, s_port_count = Some 5, s_ports = None\<rparr>]\<rparr>"

definition p2p_switch :: LogicalSwitch where
  "p2p_switch =
     \<lparr>ls_vpc_name = ''vlab'', ls_name = ''ls1'', ls_id = 1, ls_type = P2P,
      subnet_str = (ipv4 192 168 1 0, 31),
      subnet = \<lparr>network_address = ipv4 192 168 1 0, prefixlen = 31\<rparr>,
      dhcp_enable = False, routed = False, ports = [], dhcp_options = None,
      vpc_mac_prefix = None, vpc_id = None\<rparr>"

definition dhcp30_switch :: LogicalSwitch where
  "dhcp30_switch =
     \<lparr>ls_vpc_name = ''vlab'', ls_name = ''ls1'', ls_id = 1, ls_type = NORMAL,
      subnet_str = (ipv4 10 0 0 0, 30),
      subnet = \<lparr>network_address = ipv4 10 0 0 0, prefixlen = 30\<rparr>,
      dhcp_enable = True, routed = False, ports = [], dhcp_options = None,
      vpc_mac_prefix = None, vpc_id = None\<rparr>"



definition three_port_config :: LabConfig where
  "three_port_config =
     \<lparr>vpc = \<lparr>v_name = ''vlab'', v_mac_prefix = ''e1:cc:ff'', v_id = 1, v_port_count = None\<rparr>,
      switches =
        [\<lparr>s_name = ''ls1'', s_id = 1, s_type = NORMAL, s_subnet = (ipv4 192 168 1 0, 24),
          s_dhcp_enable = False, s_routed = False, s_port_count = Some 3, s_ports = None\<rparr>]\<rparr>"

definition plain24_switch :: LogicalSwitch where
  "plain24_switch =
     \<lparr>ls_vpc_name = ''vlab'', ls_name = ''ls1'', ls_id = 1, ls_type = NORMAL,
      subnet_str = (ipv4 192 168 1 0, 24),
      subnet = \<lparr>network_address = ipv4 192 168 1 0, prefixlen = 24\<rparr>,
      dhcp_enable = False, routed = False, ports = [], dhcp_options = None,
      vpc_mac_prefix = None, vpc_id = None\<rparr>"

definition many_ports_raw :: raw_LabConfig where
  "many_ports_raw =
     \<lparr>r_vpc = \<lparr>v_name = ''vlab'', v_mac_prefix = ''e1:cc:ff'', v_id = 1, v_port_count = None\<rparr>,
      r_switches =
        [\<lparr>rs_name = ''ls1'', rs_id = 1, rs_type = NORMAL, rs_subnet = (ipv4 10 0 0 0, 23),
          rs_dhcp_enable = False, rs_routed = False, rs_port_count = Some 300, rs_ports = None\<rparr>]\<rparr>"

definition many_ports_config :: LabConfig where
  "many_ports_config =
     \<lparr>vpc = \<lparr>v_name = ''vlab'', v_mac_prefix = ''e1:cc:ff'', v_id = 1, v_port_count = None\<rparr>,
      switches =
        [\<lparr>s_name = ''ls1'', s_id = 1, s_type = NORMAL, s_subnet = (ipv4 10 0 0 0, 23),
          s_dhcp_enable = False, s_routed = False, s_port_count = Some 300, s_ports = None\<rparr>]\<rparr>"

definition wide23_switch :: LogicalSwitch where
  "wide23_switch =
     \<lparr>ls_vpc_name = ''vlab'', ls_name = ''ls1'', ls_id = 1, ls_type = NORMAL,
      subnet_str = (ipv4 10 0 0 0, 23),
      subnet = \<lparr>network_address = ipv4 10 0 0 0, prefixlen = 23\<rparr>,
      dhcp_enable = False, routed = False, ports = [], dhcp_options = None,
      vpc_mac_prefix = None, vpc_id = None\<rparr>"

text \<open>
  A configuration with two descriptors named \<open>ls1\<close> (ids 1 and 2) and the topology
  derived from it; a configuration with a VPC id of 300 and a switch id of 256.
\<close>

definition dup_raw :: raw_LabConfig where
  "dup_raw =
     \<lparr>r_vpc = \<lparr>v_name = ''vlab'', v_mac_prefix = ''e1:cc:ff'', v_id = 1, v_port_count = None\<rparr>,
      r_switches =
        [\<lparr>rs_name = ''ls1'', rs_id = 1, rs_type = NORMAL, rs_subnet = (ipv4 192 168 1 0, 24),
          rs_dhcp_enable = False, rs_routed = False, rs_port_count = Some 5, rs_ports = None\<rparr>,
         \<lparr>rs_name = ''ls1'', rs_id = 2, rs_type = NORMAL, rs_subnet = (ipv4 192 168 2 0, 24),
          rs_dhcp_enable = False, rs_routed = False, rs_port_count = Some 1, rs_ports = None\<rparr>]\<rparr>"

definition dup_config :: LabConfig where
  "dup_config =
     \<lparr>vpc = \<lparr>v_name = ''vlab'', v_mac_prefix = ''e1:cc:ff'', v_id = 1, v_port_count = None\<rparr>,
      switches =
        [\<lparr>s_name = ''ls1'', s_id = 1, s_type = NORMAL, s_subnet = (ipv4 192 168 1 0, 24),
          s_dhcp_enable = False, s_routed = False, s_port_count = Some 5, s_ports = None\<rparr>,
         \<lparr>s_name = ''ls1'', s_id = 2, s_type = NORMAL, s_subnet = (ipv4 192 168 2 0, 24),
          s_dhcp_enable = False, s_routed = False, s_port_count = Some 1, s_ports = None\<rparr>]\<rparr>"

definition dup_topology :: Topology where
  "dup_topology =
     \<lparr>t_config = dup_config, t_vpc_name = ''vlab'', t_mac_prefix = ''e1:cc:ff'', t_vpc_id = 1,
      t_switches =
        [(''ls1'',
          \<lparr>ls_vpc_name = ''vlab'', ls_name = ''ls1'', ls_id = 2, ls_type = NORMAL,
           subnet_str = (ipv4 192 168 2 0, 24),
           subnet = \<lparr>network_address = ipv4 192 168 2 0, prefixlen = 24\<rparr>,
           dhcp_enable = False, routed = False,
           ports =
             [\<lparr>lsp_vpc_name = ''vlab'', lsp_switch_name = ''ls1'', lsp_port_name = ''lsp1'',
               lsp_vpc_id = 1, lsp_switch_id = 2, port_index = 1, lsp_mac_prefix = ''e1:cc:ff'',
               lsp_addressing = UNKNOWN, lsp_ip = None,
               lsp_subnet = Some \<lparr>network_address = ipv4 192 168 2 0, prefixlen = 24\<rparr>\<rparr>],
           dhcp_options = None, vpc_mac_prefix = None, vpc_id = None\<rparr>)],
      router = None\<rparr>"

definition big_id_raw :: raw_LabConfig where
  "big_id_raw =
     \<lparr>r_vpc = \<lparr>v_name = ''vlab'', v_mac_prefix = ''e1:cc:ff'', v_id = 300, v_port_count = None\<rparr>,
      r_switches =
        [\<lparr>rs_name = ''ls1'', rs_id = 256, rs_type = NORMAL, rs_subnet = (ipv4 192 168 1 0, 24),
          rs_dhcp_enable = False, rs_routed = False, rs_port_count = Some 1, rs_ports = None\<rparr>]\<rparr>"

definition big_id_config :: LabConfig where
  "big_id_config =
     \<lparr>vpc = \<lparr>v_name = ''vlab'', v_mac_prefix = ''e1:cc:ff'', v_id = 300, v_port_count = None\<rparr>,
      switches =
        [\<lparr>s_name = ''ls1'', s_id = 256, s_type = NORMAL, s_subnet = (ipv4 192 168 1 0, 24),
          s_dhcp_enable = False, s_routed = False, s_port_count = Some 1, s_ports = None\<rparr>]\<rparr>"

section \<open>Auxiliary facts about the derivation\<close>

lemma LogicalSwitch_init_Inr:
  assumes "LogicalSwitch_init vn nm sid ty c dh ro = Inr sw"
  shows "ports sw = []" and "prefixlen (subnet sw) \<le> 32" and "ls_name sw = nm"
    and "dhcp_enable sw = dh" and "routed sw = ro" and "ls_id sw = sid"
    and "vpc_mac_prefix sw = None" and "vpc_id sw = None"
    and "network_address (subnet sw) = fst c" and "prefixlen (subnet sw) = snd c"
  using assms
  by (auto simp: LogicalSwitch_init_def IPv4Network_def split: prod.splits if_splits)

lemma pow_ge8: "p \<le> 29 \<Longrightarrow> (8::nat) \<le> 2 ^ (32 - p)"
proof -
  assume "p \<le> 29"
  then have "(2::nat) ^ 3 \<le> 2 ^ (32 - p)" by (intro power_increasing) auto
  then show ?thesis by simp
qed


lemma usable_ips_closed:
  assumes "prefixlen (subnet sw) \<le> 32"
  shows "usable_ips sw =
     (let a = network_address (subnet sw); p = prefixlen (subnet sw);
          inner = [Suc a ..< a + 2 ^ (32 - p) - 1]
      in if p = 31 then [a, Suc a]
         else if p = 32 then [a]
         else if dhcp_enable sw \<and> p \<le> 29 then drop 4 inner
         else inner)"
proof -
  let ?p = "prefixlen (subnet sw)"
  consider "?p = 31" | "?p = 32" | "?p = 30" | "?p \<le> 29" using assms by linarith
  then show ?thesis
  proof cases
    case 1 then show ?thesis by (simp add: usable_ips_def addresses_def broadcast_address_def upt_rec Let_def)
  next
    case 2 then show ?thesis by (simp add: usable_ips_def hosts_def Let_def)
  next
    case 3 then show ?thesis by (simp add: usable_ips_def hosts_def broadcast_address_def Let_def)
  next
    case 4
    with pow_ge8[of ?p] have "8 \<le> (2::nat) ^ (32 - ?p)" by simp
    with 4 show ?thesis by (simp add: usable_ips_def hosts_def broadcast_address_def Let_def)
  qed
qed

lemma ports_foldl_add_port: "ports (foldl add_port sw ps) = ports sw @ ps"
  by (induction ps arbitrary: sw) (simp_all add: add_port_def)

lemma ports_add_ports_to_switch:
  "ports (add_ports_to_switch config sw sc) =
     ports sw @
     (if explicit_ports_given sc then map (explicit_port config sw) (enumerate 0 (the (s_ports sc)))
      else (case py_or (s_port_count sc) (v_port_count (vpc config)) of
              None \<Rightarrow> []
            | Some pc \<Rightarrow> map (auto_port config sw) (py_range (min pc (int (length (usable_ips sw)))))))"
  by (simp add: add_ports_to_switch_def ports_foldl_add_port Let_def split: option.splits)

lemma port_index_explicit:
  "map port_index (map (explicit_port config sw) (enumerate 0 ps)) =
     map (\<lambda>i. int i + 1) [0 ..< length ps]"
  by (rule nth_equalityI) (simp_all add: explicit_port_def nth_enumerate_eq)

lemma port_index_auto:
  "map port_index (map (auto_port config sw) (py_range k)) = map (\<lambda>i. int i + 1) [0 ..< nat k]"
  by (rule nth_equalityI) (simp_all add: auto_port_def py_range_def)

lemma mac_explicit_port:
  "mac (explicit_port config sw ip) =
     v_mac_prefix (vpc config) @ '':'' @ fmt_02x (v_id (vpc config)) @ '':'' @
     fmt_02x (ls_id sw) @ '':'' @ fmt_02x (port_index (explicit_port config sw ip))"
  by (simp add: mac_def explicit_port_def split: prod.splits)

lemma mac_auto_port:
  "mac (auto_port config sw k) =
     v_mac_prefix (vpc config) @ '':'' @ fmt_02x (v_id (vpc config)) @ '':'' @
     fmt_02x (ls_id sw) @ '':'' @ fmt_02x (port_index (auto_port config sw k))"
  by (simp add: mac_def auto_port_def)

lemma hex_nat_length2: "n < 256 \<Longrightarrow> length (zfill 2 (hex_nat n)) = 2"
proof -
  assume n: "n < 256"
  show ?thesis
  proof (cases "n < 16")
    case True
    then show ?thesis by (simp add: hex_nat.simps[of n] zfill_def)
  next
    case False
    with n have "n div 16 < 16" by simp
    with False show ?thesis by (simp add: hex_nat.simps[of n] hex_nat.simps[of "n div 16"] zfill_def)
  qed
qed

lemma fmt_02x_length: "0 \<le> i \<Longrightarrow> i \<le> 255 \<Longrightarrow> length (fmt_02x i) = 2"
  by (simp add: fmt_02x_def hex_nat_length2)

lemma hex_nat_length_ge: "16 \<le> n \<Longrightarrow> 2 \<le> length (hex_nat n)"
  by (subst hex_nat.simps) (simp add: hex_nat.simps[of "n div 16"])

lemma fmt_02x_length_big: "256 \<le> i \<Longrightarrow> 3 \<le> length (fmt_02x i)"
proof -
  assume i: "256 \<le> i"
  then have "16 \<le> nat i div 16" by simp
  then have "2 \<le> length (hex_nat (nat i div 16))" by (rule hex_nat_length_ge)
  moreover have "hex_nat (nat i) = hex_nat (nat i div 16) @ [digit_char (nat i mod 16)]"
  proof -
    have "\<not> nat i < 16" using i by linarith
    then show ?thesis by (simp add: hex_nat.simps[of "nat i"])
  qed
  ultimately show ?thesis using i by (simp add: fmt_02x_def zfill_def)
qed

lemma p2p_switch_init:
  "LogicalSwitch_init ''vlab'' ''ls1'' 1 P2P (ipv4 192 168 1 0, 31) False False = Inr p2p_switch"
  by (simp add: LogicalSwitch_init_def IPv4Network_def p2p_switch_def ipv4_def)

lemma dhcp30_switch_init:
  "LogicalSwitch_init ''vlab'' ''ls1'' 1 NORMAL (ipv4 10 0 0 0, 30) True False = Inr dhcp30_switch"
  by (simp add: LogicalSwitch_init_def IPv4Network_def dhcp30_switch_def ipv4_def)



lemma plain24_switch_init:
  "LogicalSwitch_init ''vlab'' ''ls1'' 1 NORMAL (ipv4 192 168 1 0, 24) False False = Inr plain24_switch"
  by (simp add: LogicalSwitch_init_def IPv4Network_def plain24_switch_def ipv4_def)


lemma map_of_dict_set: "map_of (dict_set d k v) = (map_of d)(k \<mapsto> v)"
  by (induction d k v rule: dict_set.induct) auto

lemma keys_dict_set: "set (map fst (dict_set d k v)) = insert k (set (map fst d))"
  by (induction d k v rule: dict_set.induct) auto

lemma distinct_dict_set: "distinct (map fst d) \<Longrightarrow> distinct (map fst (dict_set d k v))"
  by (induction d k v rule: dict_set.induct) (auto simp: keys_dict_set[simplified])

lemma ls_name_foldl_add_port: "ls_name (foldl add_port sw ps) = ls_name sw"
  by (induction ps arbitrary: sw) (simp_all add: add_port_def)

lemma ls_name_add_ports_to_switch: "ls_name (add_ports_to_switch config sw sc) = ls_name sw"
  by (simp add: add_ports_to_switch_def ls_name_foldl_add_port Let_def split: option.splits)

lemma ls_name_setup_dhcp_options: "setup_dhcp_options sw = Inr sw' \<Longrightarrow> ls_name sw' = ls_name sw"
  by (auto simp: setup_dhcp_options_def split: if_splits list.splits sum.splits)

lemma ls_name_make_switch: "make_switch config sc = Inr sw \<Longrightarrow> ls_name sw = s_name sc"
  by (auto simp: make_switch_def Let_def ls_name_add_ports_to_switch
        dest!: ls_name_setup_dhcp_options LogicalSwitch_init_Inr(3)
        split: sum.splits if_splits)

lemma create_switches_keys:
  "create_switches config scs d = Inr d' \<Longrightarrow>
   set (map fst d') = set (map fst d) \<union> set (map s_name scs) \<and>
   (distinct (map fst d) \<longrightarrow> distinct (map fst d'))"
proof (induction scs arbitrary: d)
  case Nil
  then show ?case by simp
next
  case (Cons sc scs)
  from Cons.prems obtain sw where sw: "make_switch config sc = Inr sw"
    and r: "create_switches config scs (dict_set d (ls_name sw) sw) = Inr d'"
    by (auto split: sum.splits)
  from Cons.IH[OF r] ls_name_make_switch[OF sw] show ?case
    by (auto simp: keys_dict_set[simplified] distinct_dict_set[simplified])
qed

lemma create_switches_lookup:
  "create_switches config scs d = Inr d' \<Longrightarrow>
   (nm \<notin> set (map s_name scs) \<longrightarrow> map_of d' nm = map_of d nm) \<and>
   (nm \<in> set (map s_name scs) \<longrightarrow>
      (\<exists>sw. map_of d' nm = Some sw \<and>
            make_switch config (last (filter (\<lambda>x. s_name x = nm) scs)) = Inr sw))"
proof (induction scs arbitrary: d)
  case Nil
  then show ?case by simp
next
  case (Cons sc scs)
  from Cons.prems obtain sw where sw: "make_switch config sc = Inr sw"
    and r: "create_switches config scs (dict_set d (ls_name sw) sw) = Inr d'"
    by (auto split: sum.splits)
  note ih = Cons.IH[OF r]
  note nm = ls_name_make_switch[OF sw]
  show ?case
  proof (cases "nm \<in> set (map s_name scs)")
    case True
    then have "filter (\<lambda>x. s_name x = nm) scs \<noteq> []"
      by (auto simp: filter_empty_conv)
    then have "last (filter (\<lambda>x. s_name x = nm) (sc # scs)) = last (filter (\<lambda>x. s_name x = nm) scs)"
      by simp
    with ih True show ?thesis by simp
  next
    case False
    then have e: "filter (\<lambda>x. s_name x = nm) scs = []"
      by (auto simp: filter_empty_conv)
    from ih False have m: "map_of d' nm = map_of (dict_set d (ls_name sw) sw) nm" by simp
    show ?thesis
    proof (cases "s_name sc = nm")
      case True
      with m nm sw e False show ?thesis by (simp add: map_of_dict_set)
    next
      case False
      with m nm \<open>nm \<notin> set (map s_name scs)\<close> show ?thesis by (simp add: map_of_dict_set)
    qed
  qed
qed

lemma dup_config_validated: "LabConfig_validate dup_raw = Inr dup_config"
  by code_simp

lemma dup_topology_derived: "Topology_init dup_config = Inr dup_topology"
  by code_simp

lemma dup_topology_built:
  "(case build dup_topology empty_db of
      Inl e \<Rightarrow> False
    | Inr db \<Rightarrow> db_switches db = [''vlab-ls1''] \<and> db_lsps db = [''vlab-ls1-lsp1''])"
  by code_simp

lemma many_ports_validated: "LabConfig_validate many_ports_raw = Inr many_ports_config"
  by code_simp

lemma wide23_switch_init:
  "LogicalSwitch_init ''vlab'' ''ls1'' 1 NORMAL (ipv4 10 0 0 0, 23) False False = Inr wide23_switch"
  by (simp add: LogicalSwitch_init_def IPv4Network_def wide23_switch_def ipv4_def)

lemma wide23_ports:
  "ports (add_ports_to_switch many_ports_config wide23_switch (hd (switches many_ports_config))) =
     map (auto_port many_ports_config wide23_switch) [0 ..< 300]"
proof -
  have u: "length (usable_ips wide23_switch) = 510"
    by (simp add: usable_ips_closed wide23_switch_def Let_def)
  show ?thesis
    by (simp add: ports_add_ports_to_switch explicit_ports_given_def py_or_def py_range_def u
          many_ports_config_def)
       (simp add: wide23_switch_def)
qed

section \<open>Auxiliary facts about the builder\<close>

















section \<open>Auxiliary facts about validation\<close>

lemma validate_switch_ids_distinct:
  "validate_switch_ids v = (if distinct (map s_id v) then Inr v else Inl ''Switch IDs must be unique'')"
proof -
  have "(length (map s_id v) = length (remdups (map s_id v))) = distinct (map s_id v)"
    using length_remdups_eq[of "map s_id v"] remdups_id_iff_distinct[of "map s_id v"] by auto
  then show ?thesis by (simp add: validate_switch_ids_def Let_def)
qed

lemma LabConfig_validate_Inr_iff:
  "LabConfig_validate r = Inr c \<longleftrightarrow>
     (\<exists>v ss. VPC_validate (r_vpc r) = Inr v \<and> Switch_list_validate (r_switches r) = Inr ss \<and>
             distinct (map s_id ss) \<and> (v_port_count v = None \<or> ss = []) \<and>
             c = \<lparr>vpc = v, switches = ss\<rparr>)"
  by (auto simp: LabConfig_validate_def Let_def validate_switch_ids_distinct sum_errors_def
        inject_vpc_port_count_def Switch_setattr_def Switch_fields_def
        split: sum.splits if_splits list.splits)

lemma Switch_validate_id:
  "Switch_validate (s\<lparr>rs_id := i\<rparr>) = map_sum id (\<lambda>x. x\<lparr>s_id := i\<rparr>) (Switch_validate s)"
  by (simp add: Switch_validate_def Let_def)

lemma Switch_validate_s_id: "Switch_validate s = Inr x \<Longrightarrow> s_id x = rs_id s"
  by (auto simp: Switch_validate_def Let_def split: if_splits)

lemma Switch_list_validate_ids:
  "Switch_list_validate rs = Inr ss \<Longrightarrow>
   Switch_list_validate (map (\<lambda>s. s\<lparr>rs_id := f (rs_id s)\<rparr>) rs) =
     Inr (map (\<lambda>x. x\<lparr>s_id := f (s_id x)\<rparr>) ss) \<and>
   map s_id ss = map rs_id rs"
proof (induction rs arbitrary: ss)
  case Nil
  then show ?case by auto
next
  case (Cons r rs)
  from Cons.prems obtain x xs where x: "Switch_validate r = Inr x"
    and xs: "Switch_list_validate rs = Inr xs" and ss: "ss = x # xs"
    by (auto split: sum.splits)
  from Cons.IH[OF xs] Switch_validate_s_id[OF x] x ss show ?case
    by (simp add: Switch_validate_id)
qed

lemma VPC_validate_id:
  "VPC_validate v = Inr v' \<Longrightarrow>
   VPC_validate (v\<lparr>v_id := k\<rparr>) = Inr (v'\<lparr>v_id := k\<rparr>) \<and> v_id v' = v_id v"
  by (auto simp: VPC_validate_def split: sum.splits)

lemma e2e_validated: "LabConfig_validate e2e_raw = Inr e2e_config"
  by code_simp

section \<open>Validation of the port selection\<close>

text \<open>
  C1. A switch that gives neither a port list nor a port count is meant to fall back to
  the port count of the VPC, and validation is meant to accept it. On the configuration
  of \<open>test_topology_build\<close> (the VPC has a port count of 2, switch \<open>ls2\<close> gives neither)
  the validation of \<open>ls2\<close> fails: its root validator never sees the VPC's port count.
\<close>

theorem C1_vpc_default_rejected:
  "LabConfig_validate test_topology_build_input =
     Inl (ValidationError [''Must specify either ports or port_count''])"
  by code_simp

section \<open>Usable host pool and port count\<close>

text \<open>
  C2, as stated, fails: a DHCP-enabled /30 switch keeps both of its host addresses in
  the pool, and they are among the first four host addresses of the subnet. The first
  four are only set aside when the subnet has more than four hosts.
\<close>

theorem C2_counterexample_dhcp_slash30:
  "LogicalSwitch_init ''vlab'' ''ls1'' 1 NORMAL (ipv4 10 0 0 0, 30) True False = Inr dhcp30_switch \<and>
   dhcp_enable dhcp30_switch \<and>
   usable_ips dhcp30_switch = [ipv4 10 0 0 1, ipv4 10 0 0 2] \<and>
   take 4 [Suc (network_address (subnet dhcp30_switch)) ..< broadcast_address (subnet dhcp30_switch)] =
     [ipv4 10 0 0 1, ipv4 10 0 0 2] \<and>
   ipv4 10 0 0 1 \<in> set (usable_ips dhcp30_switch)"
  by (simp add: dhcp30_switch_init)
     (simp add: dhcp30_switch_def usable_ips_def hosts_def broadcast_address_def ipv4_def upt_rec)

text \<open>
  C2, amended. For a switch made from a valid subnet, the pool is: both addresses for a
  /31; the single address for a /32; otherwise the addresses strictly between network
  and broadcast address, without the first four when DHCP is enabled and the prefix
  length is at most 29 (with DHCP on a /30 the whole pool is kept). The pool then shares
  no address with the first four hosts exactly in the DHCP case with prefix length at
  most 29. The number of ports of a switch without explicit ports is the minimum of the
  port count (the switch's, or the VPC's when the switch's is absent or zero) and the
  pool size, and zero when that is negative or no count is given.
\<close>

theorem C2_usable_pool_and_port_count:
  assumes "LogicalSwitch_init vn nm sid ty c dh ro = Inr sw"
  shows "(let a = network_address (subnet sw); p = prefixlen (subnet sw);
              inner = [Suc a ..< a + 2 ^ (32 - p) - 1]
          in usable_ips sw =
               (if p = 31 then [a, Suc a]
                else if p = 32 then [a]
                else if dhcp_enable sw \<and> p \<le> 29 then drop 4 inner
                else inner) \<and>
             set (usable_ips sw) \<inter> set (take 4 inner) =
               (if dhcp_enable sw \<and> p \<le> 29 then {} else set (take 4 inner))) \<and>
         length (ports (add_ports_to_switch config sw sc)) =
           (if explicit_ports_given sc then length (the (s_ports sc))
            else (case py_or (s_port_count sc) (v_port_count (vpc config)) of
                    None \<Rightarrow> 0
                  | Some pc \<Rightarrow> nat (min pc (int (length (usable_ips sw))))))"
proof -
  let ?a = "network_address (subnet sw)"
  let ?p = "prefixlen (subnet sw)"
  let ?inner = "[Suc ?a ..< ?a + 2 ^ (32 - ?p) - 1]"
  have p32: "?p \<le> 32" and nop: "ports sw = []"
    using LogicalSwitch_init_Inr[OF assms] by simp_all
  have u: "usable_ips sw =
             (if ?p = 31 then [?a, Suc ?a]
              else if ?p = 32 then [?a]
              else if dhcp_enable sw \<and> ?p \<le> 29 then drop 4 ?inner
              else ?inner)"
    using usable_ips_closed[OF p32] by (simp add: Let_def)
  have disj: "set (drop 4 ?inner) \<inter> set (take 4 ?inner) = {}"
    using set_take_disj_set_drop_if_distinct[of ?inner 4 4] by auto
  have i: "set (usable_ips sw) \<inter> set (take 4 ?inner) =
             (if dhcp_enable sw \<and> ?p \<le> 29 then {} else set (take 4 ?inner))"
  proof -
    consider "?p = 31" | "?p = 32" | "?p \<le> 30" using p32 by linarith
    then show ?thesis
    proof cases
      case 1 then show ?thesis by simp
    next
      case 2 then show ?thesis by simp
    next
      case 3
      have "set (take 4 ?inner) \<subseteq> set ?inner" by (rule set_take_subset)
      with 3 disj show ?thesis unfolding u by auto
    qed
  qed
  have l: "length (ports (add_ports_to_switch config sw sc)) =
           (if explicit_ports_given sc then length (the (s_ports sc))
            else (case py_or (s_port_count sc) (v_port_count (vpc config)) of
                    None \<Rightarrow> 0
                  | Some pc \<Rightarrow> nat (min pc (int (length (usable_ips sw))))))"
    by (simp add: ports_add_ports_to_switch nop py_range_def split: option.splits)
  from u i l show ?thesis by (simp only: Let_def)
qed

text \<open>Witness for C2: a port count of 5 on a /31 gives exactly 2 ports.\<close>

theorem C2_witness_five_ports_on_slash31:
  "LogicalSwitch_init ''vlab'' ''ls1'' 1 P2P (ipv4 192 168 1 0, 31) False False = Inr p2p_switch \<and>
   usable_ips p2p_switch = [ipv4 192 168 1 0, ipv4 192 168 1 1] \<and>
   length (ports (add_ports_to_switch p2p_config p2p_switch (hd (switches p2p_config)))) = 2"
proof -
  note t = C2_usable_pool_and_port_count[OF p2p_switch_init, of p2p_config "hd (switches p2p_config)"]
  have n: "prefixlen (subnet p2p_switch) = 31" "network_address (subnet p2p_switch) = ipv4 192 168 1 0"
    by (simp_all add: p2p_switch_def)
  have u: "usable_ips p2p_switch = [ipv4 192 168 1 0, ipv4 192 168 1 1]"
    using t n by (simp add: Let_def ipv4_def)
  have sc: "\<not> explicit_ports_given (hd (switches p2p_config))"
    "py_or (s_port_count (hd (switches p2p_config))) (v_port_count (vpc p2p_config)) = Some 5"
    by (simp_all add: p2p_config_def explicit_ports_given_def py_or_def)
  have "length (ports (add_ports_to_switch p2p_config p2p_switch (hd (switches p2p_config)))) = 2"
    using t sc u by simp
  with u p2p_switch_init show ?thesis by simp
qed

section \<open>Router attachment\<close>




section \<open>The gateway address of a routed switch\<close>




section \<open>Idempotence of build\<close>


section \<open>MAC addresses and port indices\<close>

text \<open>
  C6, as stated, fails: on a validated configuration with a /23 switch and a port count
  of 300, the port with index 256 has the MAC \<open>e1:cc:ff:01:01:100\<close>, whose last field
  has three hexadecimal digits.
\<close>

theorem C6_counterexample_port_index_256:
  "LabConfig_validate many_ports_raw = Inr many_ports_config \<and>
   LogicalSwitch_init ''vlab'' ''ls1'' 1 NORMAL (ipv4 10 0 0 0, 23) False False = Inr wide23_switch \<and>
   length (ports (add_ports_to_switch many_ports_config wide23_switch
                    (hd (switches many_ports_config)))) = 300 \<and>
   port_index (ports (add_ports_to_switch many_ports_config wide23_switch
                        (hd (switches many_ports_config))) ! 255) = 256 \<and>
   mac (ports (add_ports_to_switch many_ports_config wide23_switch
                 (hd (switches many_ports_config))) ! 255) = ''e1:cc:ff:01:01:100''"
proof -
  have f: "fmt_02x 1 = ''01''" "fmt_02x 256 = ''100''" by code_simp+
  have m: "mac (auto_port many_ports_config wide23_switch 255) = ''e1:cc:ff:01:01:100''"
    by (simp add: mac_def auto_port_def many_ports_config_def wide23_switch_def f)
  have i: "port_index (auto_port many_ports_config wide23_switch 255) = 256"
    by (simp add: auto_port_def)
  show ?thesis
    by (simp add: many_ports_validated wide23_switch_init wide23_ports m i)
qed

text \<open>
  C6, amended. Every port the derivation gives a switch has the MAC address made of the
  VPC's MAC prefix, the VPC id, the switch id and the port index, each of the three
  formatted with \<open>02x\<close> and joined by colons; the port indices are 1, 2, ... in list
  order, for explicit and for autogenerated ports alike, so index 0 is never assigned.
  The format gives a non-negative value at least two hexadecimal digits, and exactly two
  if and only if the value is at most 255; nothing bounds the ids or the index.
\<close>

theorem C6_mac_formula_and_indices:
  assumes "LogicalSwitch_init vn nm sid ty c dh ro = Inr sw"
  shows "map port_index (ports (add_ports_to_switch config sw sc)) =
           map (\<lambda>i. int i + 1) [0 ..< length (ports (add_ports_to_switch config sw sc))] \<and>
         (\<forall>p \<in> set (ports (add_ports_to_switch config sw sc)).
            1 \<le> port_index p \<and>
            mac p = v_mac_prefix (vpc config) @ '':'' @ fmt_02x (v_id (vpc config)) @ '':'' @
                    fmt_02x sid @ '':'' @ fmt_02x (port_index p)) \<and>
         (\<forall>i. 0 \<le> i \<longrightarrow> 2 \<le> length (fmt_02x i) \<and> ((length (fmt_02x i) = 2) = (i \<le> 255)))"
proof -
  let ?ps = "ports (add_ports_to_switch config sw sc)"
  have nop: "ports sw = []" and sid: "ls_id sw = sid"
    using LogicalSwitch_init_Inr[OF assms] by simp_all
  have idx: "map port_index ?ps = map (\<lambda>i. int i + 1) [0 ..< length ?ps]"
  proof (cases "explicit_ports_given sc")
    case True
    then have ps: "?ps = map (explicit_port config sw) (enumerate 0 (the (s_ports sc)))"
      by (simp add: ports_add_ports_to_switch nop)
    show ?thesis
      unfolding ps using port_index_explicit[of config sw "the (s_ports sc)"] by simp
  next
    case False
    show ?thesis
    proof (cases "py_or (s_port_count sc) (v_port_count (vpc config))")
      case None
      with False have "?ps = []" by (simp add: ports_add_ports_to_switch nop)
      then show ?thesis by simp
    next
      case (Some pc)
      with False have ps: "?ps = map (auto_port config sw)
                                   (py_range (min pc (int (length (usable_ips sw)))))"
        by (simp add: ports_add_ports_to_switch nop)
      show ?thesis
        unfolding ps
        using port_index_auto[of config sw "min pc (int (length (usable_ips sw)))"]
        by (simp add: py_range_def)
    qed
  qed
  have ge: "\<forall>p \<in> set ?ps. 1 \<le> port_index p"
  proof
    fix p assume "p \<in> set ?ps"
    then have "port_index p \<in> set (map port_index ?ps)" by simp
    then have "port_index p \<in> set (map (\<lambda>i. int i + 1) [0 ..< length ?ps])"
      using idx by simp
    then show "1 \<le> port_index p" by auto
  qed
  have m: "\<forall>p \<in> set ?ps.
            mac p = v_mac_prefix (vpc config) @ '':'' @ fmt_02x (v_id (vpc config)) @ '':'' @
                    fmt_02x sid @ '':'' @ fmt_02x (port_index p)"
    by (auto simp: ports_add_ports_to_switch nop mac_explicit_port mac_auto_port sid
          split: option.splits if_splits)
  have w: "\<forall>i. 0 \<le> i \<longrightarrow> 2 \<le> length (fmt_02x i) \<and> ((length (fmt_02x i) = 2) = (i \<le> 255))"
  proof (intro allI impI)
    fix i :: int assume i: "0 \<le> i"
    show "2 \<le> length (fmt_02x i) \<and> ((length (fmt_02x i) = 2) = (i \<le> 255))"
    proof (cases "i \<le> 255")
      case True
      with i fmt_02x_length[of i] show ?thesis by simp
    next
      case False
      then have "256 \<le> i" by simp
      from fmt_02x_length_big[OF this] False show ?thesis by simp
    qed
  qed
  from idx ge m w show ?thesis by blast
qed

text \<open>
  Witness for C6: switch id 1 under VPC id 1 with prefix \<open>e1:cc:ff\<close>; the port with
  index 3 has the MAC \<open>e1:cc:ff:01:01:03\<close>.
\<close>

theorem C6_witness_third_port_mac:
  "LogicalSwitch_init ''vlab'' ''ls1'' 1 NORMAL (ipv4 192 168 1 0, 24) False False = Inr plain24_switch \<and>
   map port_index (ports (add_ports_to_switch three_port_config plain24_switch
                            (hd (switches three_port_config)))) = [1, 2, 3] \<and>
   map mac (ports (add_ports_to_switch three_port_config plain24_switch
                     (hd (switches three_port_config)))) =
     [''e1:cc:ff:01:01:01'', ''e1:cc:ff:01:01:02'', ''e1:cc:ff:01:01:03'']"
proof -
  let ?ps = "ports (add_ports_to_switch three_port_config plain24_switch
                      (hd (switches three_port_config)))"
  note t = C6_mac_formula_and_indices[OF plain24_switch_init, of three_port_config
             "hd (switches three_port_config)"]
  have u: "length (usable_ips plain24_switch) = 254"
    by (simp add: usable_ips_closed plain24_switch_def Let_def)
  have len: "length ?ps = 3"
    by (simp add: ports_add_ports_to_switch explicit_ports_given_def py_or_def py_range_def u
          three_port_config_def)
      (simp add: plain24_switch_def)
  from t len have idx: "map port_index ?ps = [1, 2, 3]"
    by (simp add: upt_rec)
  have f: "fmt_02x 1 = ''01''" "fmt_02x 2 = ''02''" "fmt_02x 3 = ''03''" by code_simp+
  have "map mac ?ps = map (\<lambda>p. ''e1:cc:ff:01:01:'' @ fmt_02x (port_index p)) ?ps"
    using t f by (simp add: three_port_config_def)
  also have "\<dots> = map (\<lambda>i. ''e1:cc:ff:01:01:'' @ fmt_02x i) (map port_index ?ps)"
    by (simp add: comp_def)
  also have "\<dots> = [''e1:cc:ff:01:01:01'', ''e1:cc:ff:01:01:02'', ''e1:cc:ff:01:01:03'']"
    unfolding idx using f by simp
  finally show ?thesis using idx plain24_switch_init by simp
qed

section \<open>Router presence\<close>

text \<open>
  C7. A specification with a routed switch is meant to derive one router. On the
  end-to-end scenario of the specification (one routed switch with DHCP enabled), which
  validation accepts, the derivation raises \<open>AttributeError\<close> while it sets up the DHCP
  options, so no topology and no router is derived.
\<close>

theorem C7_routed_dhcp_switch_raises:
  "LabConfig_validate e2e_raw = Inr e2e_config \<and>
   Topology_init e2e_config = Inl (AttributeError ''vpc_mac_prefix'')"
  by code_simp

section \<open>Range of the numeric ids\<close>

text \<open>
  C8, as stated, fails: validation accepts a configuration whose VPC id is 300 and whose
  switch id is 256.
\<close>

theorem C8_counterexample_ids_above_255_accepted:
  "LabConfig_validate big_id_raw = Inr big_id_config \<and>
   v_id (vpc big_id_config) = 300 \<and> map s_id (switches big_id_config) = [256]"
  by code_simp

text \<open>
  C8, amended. Validation puts no range on the VPC id or on the switch ids; it only
  requires the switch ids to be pairwise distinct. Hence an accepted configuration stays
  accepted when the VPC id is replaced by any value and the switch ids are renumbered by
  any injective function, and its switch ids are distinct. An id within 0..255 is
  formatted as exactly two hexadecimal digits.
\<close>

theorem C8_validation_ignores_id_range:
  assumes "LabConfig_validate r = Inr c" and "inj f"
  shows "LabConfig_validate
           (r\<lparr>r_vpc := (r_vpc r)\<lparr>v_id := g (v_id (r_vpc r))\<rparr>,
              r_switches := map (\<lambda>s. s\<lparr>rs_id := f (rs_id s)\<rparr>) (r_switches r)\<rparr>) =
         Inr (c\<lparr>vpc := (vpc c)\<lparr>v_id := g (v_id (vpc c))\<rparr>,
                switches := map (\<lambda>s. s\<lparr>s_id := f (s_id s)\<rparr>) (switches c)\<rparr>) \<and>
         distinct (map s_id (switches c)) \<and>
         (\<forall>i. 0 \<le> i \<and> i \<le> 255 \<longrightarrow> length (fmt_02x i) = 2)"
proof -
  from assms(1) obtain v ss where v: "VPC_validate (r_vpc r) = Inr v"
    and ss: "Switch_list_validate (r_switches r) = Inr ss"
    and d: "distinct (map s_id ss)" and pc: "v_port_count v = None \<or> ss = []"
    and c: "c = \<lparr>vpc = v, switches = ss\<rparr>"
    unfolding LabConfig_validate_Inr_iff by blast
  let ?ss' = "map (\<lambda>x. x\<lparr>s_id := f (s_id x)\<rparr>) ss"
  note v' = VPC_validate_id[OF v, of "g (v_id (r_vpc r))"]
  note ss' = Switch_list_validate_ids[OF ss, of f]
  have "map s_id ?ss' = map f (map s_id ss)" by (simp add: comp_def)
  then have d': "distinct (map s_id ?ss')"
    using d assms(2) by (simp add: distinct_map inj_on_def inj_def del: map_map)
  have "LabConfig_validate
           (r\<lparr>r_vpc := (r_vpc r)\<lparr>v_id := g (v_id (r_vpc r))\<rparr>,
              r_switches := map (\<lambda>s. s\<lparr>rs_id := f (rs_id s)\<rparr>) (r_switches r)\<rparr>) =
        Inr \<lparr>vpc = v\<lparr>v_id := g (v_id (r_vpc r))\<rparr>, switches = ?ss'\<rparr>"
    unfolding LabConfig_validate_Inr_iff using v' ss' d' pc by auto
  with v' c d show ?thesis by (simp add: fmt_02x_length)
qed

text \<open>
  Witness for C8: the end-to-end scenario, renumbered to VPC id 300 and switch id 256.
\<close>

theorem C8_witness_renumbered_scenario:
  "LabConfig_validate e2e_raw = Inr e2e_config \<and> inj (\<lambda>i::int. i + 255) \<and>
   LabConfig_validate
     (e2e_raw\<lparr>r_vpc := (r_vpc e2e_raw)\<lparr>v_id := v_id (r_vpc e2e_raw) + 299\<rparr>,
              r_switches := map (\<lambda>s. s\<lparr>rs_id := rs_id s + 255\<rparr>) (r_switches e2e_raw)\<rparr>) =
   Inr (e2e_config\<lparr>vpc := (vpc e2e_config)\<lparr>v_id := v_id (vpc e2e_config) + 299\<rparr>,
                   switches := map (\<lambda>s. s\<lparr>s_id := s_id s + 255\<rparr>) (switches e2e_config)\<rparr>) \<and>
   v_id (vpc e2e_config) + 299 = 300 \<and>
   map (\<lambda>s. s_id s + 255) (switches e2e_config) = [256]"
proof -
  have i: "inj (\<lambda>i::int. i + 255)" by (simp add: inj_def)
  note t = C8_validation_ignores_id_range[OF e2e_validated i, of "\<lambda>i. i + 299"]
  have k: "v_id (vpc e2e_config) + 299 = 300"
    "map (\<lambda>s. s_id s + 255) (switches e2e_config) = [256]"
    by (simp_all add: e2e_config_def)
  show ?thesis
    by (rule conjI[OF e2e_validated conjI[OF i conjI[OF t[THEN conjunct1] conjI[OF k]]]])
qed

section \<open>Order of the delete operations of destroy\<close>



section \<open>Switch descriptors that share a name\<close>

text \<open>
  C10. Whenever the derivation returns a topology, its switches are keyed by name without
  repetition, the names are those of the descriptors, and under each name stands the
  switch made from the last descriptor of that name: a later descriptor replaces an
  earlier one of the same name. So the topology holds no more switches than the
  specification declares, and fewer as soon as two descriptors share a name; every
  switch that build and destroy iterate over is the one made from the last descriptor of
  its name, and an earlier descriptor of that name is not visited.
\<close>

theorem C10_later_descriptor_replaces_earlier:
  assumes "Topology_init config = Inr t" and "sc \<in> set (switches config)"
  shows "distinct (map fst (t_switches t)) \<and>
         set (map fst (t_switches t)) = set (map s_name (switches config)) \<and>
         length (t_switches t) \<le> length (switches config) \<and>
         (distinct (map s_name (switches config)) \<or> length (t_switches t) < length (switches config)) \<and>
         (\<exists>sw. map_of (t_switches t) (s_name sc) = Some sw \<and>
               make_switch config (last (filter (\<lambda>d. s_name d = s_name sc) (switches config))) = Inr sw) \<and>
         (\<forall>sw \<in> set (dict_values (t_switches t)). \<exists>d \<in> set (switches config).
            make_switch config (last (filter (\<lambda>x. s_name x = s_name d) (switches config))) = Inr sw)"
proof -
  let ?scs = "switches config"
  from assms(1) have cs: "create_switches config ?scs [] = Inr (t_switches t)"
    by (auto simp: Topology_init_def split: sum.splits)
  from create_switches_keys[OF cs]
  have keys: "set (map fst (t_switches t)) = set (map s_name ?scs)"
    and dist: "distinct (map fst (t_switches t))" by simp_all
  have len: "length (t_switches t) = card (set (map s_name ?scs))"
    using distinct_card[OF dist] keys by simp
  have le: "length (t_switches t) \<le> length ?scs"
    using card_length[of "map s_name ?scs"] len by simp
  have lt: "distinct (map s_name ?scs) \<or> length (t_switches t) < length ?scs"
  proof (cases "distinct (map s_name ?scs)")
    case True then show ?thesis by simp
  next
    case False
    then have "card (set (map s_name ?scs)) \<noteq> length (map s_name ?scs)"
      using card_distinct[of "map s_name ?scs"] by blast
    with le len show ?thesis by simp
  qed
  have look: "\<And>d. d \<in> set ?scs \<Longrightarrow>
      \<exists>sw. map_of (t_switches t) (s_name d) = Some sw \<and>
           make_switch config (last (filter (\<lambda>x. s_name x = s_name d) ?scs)) = Inr sw"
    using create_switches_lookup[OF cs] by simp
  have all: "\<forall>sw \<in> set (dict_values (t_switches t)). \<exists>d \<in> set ?scs.
            make_switch config (last (filter (\<lambda>x. s_name x = s_name d) ?scs)) = Inr sw"
  proof
    fix sw assume "sw \<in> set (dict_values (t_switches t))"
    then obtain k where k: "(k, sw) \<in> set (t_switches t)"
      by (auto simp: dict_values_def)
    then have m: "map_of (t_switches t) k = Some sw" using dist by simp
    from k have "k \<in> set (map fst (t_switches t))" by force
    with keys obtain d where d: "d \<in> set ?scs" "s_name d = k" by auto
    from look[OF d(1)] m d(2) have
      "make_switch config (last (filter (\<lambda>x. s_name x = s_name d) ?scs)) = Inr sw" by simp
    with d(1) show "\<exists>d \<in> set ?scs.
            make_switch config (last (filter (\<lambda>x. s_name x = s_name d) ?scs)) = Inr sw" by blast
  qed
  from dist keys le lt look[OF assms(2)] all show ?thesis by blast
qed

text \<open>
  Witness for C10: a configuration that validation accepts, with two descriptors named
  \<open>ls1\<close> (ids 1 and 2, port counts 5 and 1). The topology holds the single switch
  made from the second, and build creates one switch and one port.
\<close>

theorem C10_witness_two_descriptors_one_switch:
  "LabConfig_validate dup_raw = Inr dup_config \<and>
   Topology_init dup_config = Inr dup_topology \<and>
   map s_name (switches dup_config) = [''ls1'', ''ls1''] \<and>
   map (\<lambda>e. (fst e, ls_id (snd e))) (t_switches dup_topology) = [(''ls1'', 2)] \<and>
   (case build dup_topology empty_db of
      Inl e \<Rightarrow> False
    | Inr db \<Rightarrow> db_switches db = [''vlab-ls1''] \<and> db_lsps db = [''vlab-ls1-lsp1'']) \<and>
   distinct (map fst (t_switches dup_topology)) \<and>
   length (t_switches dup_topology) < length (switches dup_config) \<and>
   (\<exists>sw. map_of (t_switches dup_topology) ''ls1'' = Some sw \<and>
         make_switch dup_config
           (last (filter (\<lambda>d. s_name d = ''ls1'') (switches dup_config))) = Inr sw)"
proof -
  have m: "hd (switches dup_config) \<in> set (switches dup_config)"
    by (simp add: dup_config_def)
  have n: "map s_name (switches dup_config) = [''ls1'', ''ls1'']"
    by (simp add: dup_config_def)
  have h: "s_name (hd (switches dup_config)) = ''ls1''"
    by (simp add: dup_config_def)
  have k: "map (\<lambda>e. (fst e, ls_id (snd e))) (t_switches dup_topology) = [(''ls1'', 2)]"
    by (simp add: dup_topology_def)
  note t = C10_later_descriptor_replaces_earlier[OF dup_topology_derived m]
  from t have d: "distinct (map fst (t_switches dup_topology))" by (rule conjunct1)
  from t n have l: "length (t_switches dup_topology) < length (switches dup_config)" by simp
  from t have e: "\<exists>sw. map_of (t_switches dup_topology) ''ls1'' = Some sw \<and>
         make_switch dup_config
           (last (filter (\<lambda>d. s_name d = ''ls1'') (switches dup_config))) = Inr sw"
    unfolding h by blast
  show ?thesis
    by (rule conjI[OF dup_config_validated conjI[OF dup_topology_derived
          conjI[OF n conjI[OF k conjI[OF dup_topology_built conjI[OF d conjI[OF l e]]]]]]])
qed

end
